theory Spec2Isabelle
  imports Complex_Main
begin

section \<open>Python values and builtins used by shell.py\<close>

text \<open>
  A Python \<open>str\<close> and a \<open>bytes\<close> object are both modelled as a \<open>string\<close>
  (a list of 8-bit characters). Exceptions are values; \<open>KeyboardInterrupt\<close> is the one
  exception of the model that \<open>except Exception\<close> does not catch.
\<close>

datatype exn =
    OSError | ValueError | IndexError | TypeError | ZeroDivisionError
  | OverflowError | UnicodeError | EOFError | MemoryError | KeyboardInterrupt

definition is_Exception :: "exn \<Rightarrow> bool" where
  "is_Exception e = (e \<noteq> KeyboardInterrupt)"

text \<open>A call that never returns: the two resets of \<open>machine\<close>, or a blocking host call.\<close>

datatype halt = HardReset | SoftReset | Hang

datatype 'a outcome = Ret 'a | Raise exn | Halt halt

definition NL :: char where "NL = CHR 0x0A"
definition CR :: char where "CR = CHR 0x0D"

definition is_space :: "char \<Rightarrow> bool" where
  "is_space c = (c = CHR '' '' \<or> c = CHR 0x09 \<or> c = CHR 0x0A \<or> c = CHR 0x0B
                 \<or> c = CHR 0x0C \<or> c = CHR 0x0D)"

text \<open>\<open>s.split()\<close>: the maximal runs of non-whitespace characters, in order.\<close>

fun ws_split :: "string \<Rightarrow> string \<Rightarrow> string list" where
  "ws_split cur [] = (if cur = [] then [] else [cur])"
| "ws_split cur (c # cs) =
     (if is_space c then (if cur = [] then ws_split [] cs else cur # ws_split [] cs)
      else ws_split (cur @ [c]) cs)"

definition py_split_ws :: "string \<Rightarrow> string list" where
  "py_split_ws s = ws_split [] s"

text \<open>The first occurrence of a non-empty separator: the text before it and after it.\<close>

fun find_sep :: "string \<Rightarrow> string \<Rightarrow> (string \<times> string) option" where
  "find_sep sep [] = None"
| "find_sep sep (c # cs) =
     (if take (length sep) (c # cs) = sep then Some ([], drop (length sep) (c # cs))
      else (case find_sep sep cs of None \<Rightarrow> None | Some (a, b) \<Rightarrow> Some (c # a, b)))"

text \<open>\<open>s.split(sep, maxsplit)\<close> for a non-empty \<open>sep\<close>.\<close>

fun py_split :: "string \<Rightarrow> nat \<Rightarrow> string \<Rightarrow> string list" where
  "py_split sep 0 s = [s]"
| "py_split sep (Suc n) s =
     (case find_sep sep s of None \<Rightarrow> [s] | Some (a, b) \<Rightarrow> a # py_split sep n b)"

text \<open>\<open>str(n)\<close> for an integer, and \<open>'{:<w}'.format(s)\<close>.\<close>

definition digit_char :: "nat \<Rightarrow> char" where
  "digit_char d =
     (if d = 0 then CHR ''0'' else if d = 1 then CHR ''1'' else if d = 2 then CHR ''2''
      else if d = 3 then CHR ''3'' else if d = 4 then CHR ''4'' else if d = 5 then CHR ''5''
      else if d = 6 then CHR ''6'' else if d = 7 then CHR ''7'' else if d = 8 then CHR ''8''
      else CHR ''9'')"

fun str_nat :: "nat \<Rightarrow> string" where
  "str_nat n = (if n < 10 then [digit_char n] else str_nat (n div 10) @ [digit_char (n mod 10)])"

declare str_nat.simps [simp del]

definition str_int :: "int \<Rightarrow> string" where
  "str_int i = (if i < 0 then CHR ''-'' # str_nat (nat (- i)) else str_nat (nat i))"

definition ljust :: "nat \<Rightarrow> string \<Rightarrow> string" where
  "ljust w s = s @ replicate (w - length s) CHR '' ''"

section \<open>The host: file system, network, machine and the builtins of the platform\<close>

type_synonym path = string
type_synonym sock = nat
type_synonym fd = nat
type_synonym sockaddr = "string \<times> int"

text \<open>The fields of the tuples of \<open>os.stat\<close> and \<open>os.statvfs\<close> that the code reads.\<close>

record stat_result =
  st_size :: int

record statvfs_result =
  f_frsize :: int
  f_blocks :: int
  f_bfree :: int

text \<open>
  An entry of \<open>os.ilistdir()\<close>: name, type, inode and, on some ports, the size; a
  3-tuple has no size.
\<close>

type_synonym dirent = "string \<times> int \<times> int \<times> int option"

text \<open>Every call the code makes to the host, in the order it makes them.\<close>

datatype call =
    COpenRead path | CChdir path | CStatvfs path | CStat path
  | CListdir "path option" | CIlistdir | CMkdir path | CGetcwd
  | CRemove path | CRmdir path
  | CMemInfo "string list" | CQstrInfo | CReset | CSoftReset
  | CSocket | CGetaddrinfo string int | CWrapSocket sock | CConnect sock sockaddr
  | CSend sock string | CRecv sock nat | CSockClose sock
  | COpenWrite path | CWrite fd string | CClose fd

text \<open>
  The host is a parameter of the model: \<open>'h\<close> is its state, \<open>'f\<close> the platform's
  floating point numbers. Each operation returns, raises or never returns.
\<close>

record ('h, 'f) host =
  py_int_of_str :: "string \<Rightarrow> int option"
  py_repr_list :: "string list \<Rightarrow> string"
  py_decode_utf8 :: "string \<Rightarrow> string option"
  int_truediv :: "int \<Rightarrow> int \<Rightarrow> exn + 'f"
  int_mul_float :: "int \<Rightarrow> 'f \<Rightarrow> exn + 'f"
  int_div_float :: "int \<Rightarrow> 'f \<Rightarrow> exn + 'f"
  float_mul_int :: "'f \<Rightarrow> int \<Rightarrow> exn + 'f"
  math_trunc :: "'f \<Rightarrow> exn + int"
  read_text :: "path \<Rightarrow> 'h \<Rightarrow> string outcome \<times> 'h"
  os_chdir :: "path \<Rightarrow> 'h \<Rightarrow> unit outcome \<times> 'h"
  os_statvfs :: "path \<Rightarrow> 'h \<Rightarrow> statvfs_result outcome \<times> 'h"
  os_stat :: "path \<Rightarrow> 'h \<Rightarrow> stat_result outcome \<times> 'h"
  os_ilistdir :: "'h \<Rightarrow> dirent list outcome \<times> 'h"
  os_listdir :: "path option \<Rightarrow> 'h \<Rightarrow> string list outcome \<times> 'h"
  os_mkdir :: "path \<Rightarrow> 'h \<Rightarrow> unit outcome \<times> 'h"
  os_remove :: "path \<Rightarrow> 'h \<Rightarrow> unit outcome \<times> 'h"
  os_rmdir :: "path \<Rightarrow> 'h \<Rightarrow> unit outcome \<times> 'h"
  os_getcwd :: "'h \<Rightarrow> string outcome \<times> 'h"
  open_write :: "path \<Rightarrow> 'h \<Rightarrow> fd outcome \<times> 'h"
  file_write :: "fd \<Rightarrow> string \<Rightarrow> 'h \<Rightarrow> unit outcome \<times> 'h"
  file_close :: "fd \<Rightarrow> 'h \<Rightarrow> unit outcome \<times> 'h"
  mem_info :: "string list \<Rightarrow> 'h \<Rightarrow> string outcome \<times> 'h"
  qstr_info :: "'h \<Rightarrow> string outcome \<times> 'h"
  socket_new :: "'h \<Rightarrow> sock outcome \<times> 'h"
  getaddrinfo :: "string \<Rightarrow> int \<Rightarrow> 'h \<Rightarrow> sockaddr list outcome \<times> 'h"
  wrap_socket :: "sock \<Rightarrow> 'h \<Rightarrow> sock outcome \<times> 'h"
  sock_connect :: "sock \<Rightarrow> sockaddr \<Rightarrow> 'h \<Rightarrow> unit outcome \<times> 'h"
  sock_send :: "sock \<Rightarrow> string \<Rightarrow> 'h \<Rightarrow> unit outcome \<times> 'h"
  sock_recv :: "sock \<Rightarrow> nat \<Rightarrow> 'h \<Rightarrow> string outcome \<times> 'h"

text \<open>The world: what was written to the console, the host calls made, the host's state.\<close>

record 'h world =
  console :: string
  calls :: "call list"
  hst :: "'h"

text \<open>\<open>print(s)\<close>.\<close>

definition say :: "string \<Rightarrow> 'h world \<Rightarrow> 'h world" where
  "say s w = w\<lparr>console := console w @ s @ [NL]\<rparr>"

text \<open>A host call: it is recorded, then the host answers.\<close>

definition host_call ::
  "call \<Rightarrow> ('h \<Rightarrow> 'a outcome \<times> 'h) \<Rightarrow> 'h world \<Rightarrow> 'a outcome \<times> 'h world" where
  "host_call c f w =
     (case f (hst w) of (r, h') \<Rightarrow> (r, w\<lparr>calls := calls w @ [c], hst := h'\<rparr>))"

text \<open>Sequencing: the rest runs only when the first part returned.\<close>

definition and_then ::
  "'a outcome \<times> 'w \<Rightarrow> ('a \<Rightarrow> 'w \<Rightarrow> 'b outcome \<times> 'w) \<Rightarrow> 'b outcome \<times> 'w" where
  "and_then r k =
     (case r of (Ret x, w) \<Rightarrow> k x w | (Raise e, w) \<Rightarrow> (Raise e, w) | (Halt h, w) \<Rightarrow> (Halt h, w))"

text \<open>\<open>try: ... except Exception: handler\<close>.\<close>

definition except_Exception ::
  "'a outcome \<times> 'w \<Rightarrow> ('w \<Rightarrow> 'a outcome \<times> 'w) \<Rightarrow> 'a outcome \<times> 'w" where
  "except_Exception r handler =
     (case r of (Raise e, w) \<Rightarrow> (if is_Exception e then handler w else (Raise e, w))
      | _ \<Rightarrow> r)"

text \<open>A builtin of the platform that returns or raises.\<close>

definition lift_sum :: "exn + 'a \<Rightarrow> 'w \<Rightarrow> 'a outcome \<times> 'w" where
  "lift_sum r w = (case r of Inl e \<Rightarrow> (Raise e, w) | Inr x \<Rightarrow> (Ret x, w))"


definition sum_bind :: "exn + 'a \<Rightarrow> ('a \<Rightarrow> exn + 'b) \<Rightarrow> exn + 'b" where
  "sum_bind r k = (case r of Inl e \<Rightarrow> Inl e | Inr x \<Rightarrow> k x)"

section \<open>The command handlers\<close>

text \<open>\<open>ush_cat\<close> (lines 20-31).\<close>

definition ush_cat :: "('h, 'f) host \<Rightarrow> string list \<Rightarrow> 'h world \<Rightarrow> unit outcome \<times> 'h world" where
  "ush_cat H args w =
     (case args of
        [] \<Rightarrow> (Ret (), say ''usage: cat <file>'' w)
      | path # _ \<Rightarrow>
          except_Exception
            (and_then (host_call (COpenRead path) (read_text H path) w)
               (\<lambda>txt w1. (Ret (), say txt w1)))
            (\<lambda>w1. (Ret (), say (''cat: no such file or directory: '' @ path) w1)))"

text \<open>\<open>ush_cd\<close> (lines 33-42).\<close>

definition ush_cd :: "('h, 'f) host \<Rightarrow> string list \<Rightarrow> 'h world \<Rightarrow> unit outcome \<times> 'h world" where
  "ush_cd H args w =
     (case args of
        [] \<Rightarrow> (Ret (), say ''usage: cd <dir>'' w)
      | path # _ \<Rightarrow>
          except_Exception
            (host_call (CChdir path) (os_chdir H path) w)
            (\<lambda>w1. (Ret (), say (''cd: no such file or directory: '' @ path) w1)))"

text \<open>
  The arithmetic of \<open>ush_df\<close> (lines 68-77), in the floating point operations of the
  platform: the result is \<open>(adj_size, adj_used, adj_avail, adj_cap)\<close>.
\<close>

definition df_arith :: "('h, 'f) host \<Rightarrow> statvfs_result \<Rightarrow> exn + (int \<times> int \<times> int \<times> int)" where
  "df_arith H sv =
     sum_bind (int_truediv H (f_frsize sv) 1024) (\<lambda>bsize_mod.
     sum_bind
       (if f_frsize sv > 1024 then
          sum_bind (int_mul_float H (f_blocks sv) bsize_mod) (\<lambda>a.
          sum_bind (math_trunc H a) (\<lambda>adj_size.
          sum_bind (int_mul_float H (f_bfree sv) bsize_mod) (\<lambda>b.
          sum_bind (math_trunc H b) (\<lambda>adj_avail. Inr (adj_size, adj_avail)))))
        else
          sum_bind (int_div_float H (f_blocks sv) bsize_mod) (\<lambda>a.
          sum_bind (math_trunc H a) (\<lambda>adj_size.
          sum_bind (int_div_float H (f_bfree sv) bsize_mod) (\<lambda>b.
          sum_bind (math_trunc H b) (\<lambda>adj_avail. Inr (adj_size, adj_avail))))))
       (\<lambda>(adj_size, adj_avail).
          sum_bind (int_truediv H (adj_size - adj_avail) adj_size) (\<lambda>q.
          sum_bind (float_mul_int H q 100) (\<lambda>p.
          sum_bind (math_trunc H p) (\<lambda>adj_cap.
            Inr (adj_size, adj_size - adj_avail, adj_avail, adj_cap))))))"

definition df_row :: "string \<Rightarrow> string \<Rightarrow> string \<Rightarrow> string \<Rightarrow> string \<Rightarrow> string" where
  "df_row a b c d e =
     ljust 12 a @ '' '' @ ljust 12 b @ '' '' @ ljust 12 c @ '' '' @ ljust 12 d @ '' '' @ ljust 12 e"

text \<open>\<open>ush_df\<close> (lines 44-82).\<close>

definition ush_df :: "('h, 'f) host \<Rightarrow> string list \<Rightarrow> 'h world \<Rightarrow> unit outcome \<times> 'h world" where
  "ush_df H args w =
     (let path = (case args of [] \<Rightarrow> ''/'' | p # _ \<Rightarrow> p) in
      except_Exception
        (and_then (host_call (CStatvfs path) (os_statvfs H path) w) (\<lambda>sv w1.
         and_then (lift_sum (df_arith H sv) w1) (\<lambda>(adj_size, adj_used, adj_avail, adj_cap) w2.
           (Ret (),
            say (df_row path (str_int adj_size) (str_int adj_used) (str_int adj_avail)
                   (str_int adj_cap @ ''%''))
              (say (df_row ''Filesystem'' ''1K-blocks'' ''Used'' ''Avail'' ''Capacity'') w2)))))
        (\<lambda>w1. (Ret (), say (''df: no such file or directory: '' @ path) w1)))"

text \<open>\<open>ush_help\<close> (lines 84-102).\<close>

definition help_text :: string where
  "help_text =
      ''ush: micropython shell implementation in Python.'' @ [NL] @
      '''' @ [NL] @
      ''          cat       Print file contents'' @ [NL] @
      ''          cd        Change directory'' @ [NL] @
      ''          df        Disk usage'' @ [NL] @
      ''          free      Memory usage'' @ [NL] @
      ''          ls [-l]   List files'' @ [NL] @
      ''          mkdir     Make a directory'' @ [NL] @
      ''          pwd       Print working directory'' @ [NL] @
      ''          reboot    Reboot/reset MCU'' @ [NL] @
      ''          rm        Remove a file'' @ [NL] @
      ''          rmdir     Remove a directory'' @ [NL] @
      ''          uget      HTTP[S] url fetcher/downloader'' @ [NL] @
      '''' @ [NL] @
      '''' @ [NL] @
      ''          Supports basic shell commands.'' @ [NL] @
      ''          Many commands offer a '' @ [CHR 0x27] @ ''help'' @ [CHR 0x27] @ '' and/or '' @ [CHR 0x27] @ ''-h'' @ [CHR 0x27] @ '' arg for more info.''"

definition ush_help :: "'h world \<Rightarrow> unit outcome \<times> 'h world" where
  "ush_help w = (Ret (), say help_text w)"

text \<open>One line of \<open>ls -l\<close> (lines 117-125); unpacking a 3-tuple raises.\<close>

definition ls_line :: "dirent \<Rightarrow> exn + string" where
  "ls_line f =
     (case f of (fname, ftype, _, fsize_opt) \<Rightarrow>
        (case fsize_opt of
           None \<Rightarrow> Inl ValueError
         | Some fsize \<Rightarrow>
             (if ftype = 16384 then
                Inr (ljust 24 (str_int fsize) @ '' '' @ ljust 6 ''dir'' @ '' '' @ (fname @ ''/''))
              else if ftype = 32768 then
                Inr (ljust 24 (str_int fsize) @ '' '' @ ljust 6 ''file'' @ '' '' @ fname)
              else
                Inr (ljust 24 (str_int fsize) @ '' '' @ ljust 6 (str_int ftype) @ '' '' @ fname))))"

fun ls_loop :: "dirent list \<Rightarrow> 'h world \<Rightarrow> unit outcome \<times> 'h world" where
  "ls_loop [] w = (Ret (), w)"
| "ls_loop (f # fs) w =
     (case ls_line f of Inl e \<Rightarrow> (Raise e, w) | Inr l \<Rightarrow> ls_loop fs (say l w))"

text \<open>\<open>ush_ls\<close> (lines 104-129): no call of it is inside a \<open>try\<close>.\<close>

definition ush_ls :: "('h, 'f) host \<Rightarrow> string list \<Rightarrow> 'h world \<Rightarrow> unit outcome \<times> 'h world" where
  "ush_ls H args w =
     (case args of
        [] \<Rightarrow>
          and_then (host_call (CListdir None) (os_listdir H None) w)
            (\<lambda>names w1. (Ret (), say (py_repr_list H names) w1))
      | a # rest \<Rightarrow>
          (if a = ''-h'' then (Ret (), say ''usage: ls [-l] [path]'' w)
           else if a = ''-l'' then
             (if length args = 2 then
                (let f = args ! 1 in
                 and_then (host_call (CStat f) (os_stat H f) w)
                   (\<lambda>st w1. (Ret (), say (ljust 24 (str_int (st_size st)) @ '' '' @ f) w1)))
              else
                and_then (host_call CIlistdir (os_ilistdir H) w) (\<lambda>entries w1. ls_loop entries w1))
           else
             and_then (host_call (CListdir (Some a)) (os_listdir H (Some a)) w)
               (\<lambda>names w1. (Ret (), say (py_repr_list H names) w1))))"

text \<open>
  \<open>ush_meminfo\<close> (lines 131-134): the two calls write their report to the console
  themselves.
\<close>

definition emit :: "string \<Rightarrow> 'h world \<Rightarrow> 'h world" where
  "emit s w = w\<lparr>console := console w @ s\<rparr>"

definition ush_meminfo :: "('h, 'f) host \<Rightarrow> string list \<Rightarrow> 'h world \<Rightarrow> unit outcome \<times> 'h world" where
  "ush_meminfo H args w =
     and_then (host_call (CMemInfo args) (mem_info H args) w) (\<lambda>t1 w1.
     and_then (host_call CQstrInfo (qstr_info H) (emit t1 w1)) (\<lambda>t2 w2.
       (Ret (), emit t2 w2)))"

text \<open>\<open>ush_mkdir\<close> (lines 136-144).\<close>

definition ush_mkdir :: "('h, 'f) host \<Rightarrow> string list \<Rightarrow> 'h world \<Rightarrow> unit outcome \<times> 'h world" where
  "ush_mkdir H args w =
     (case args of
        [] \<Rightarrow> (Ret (), say ''usage: mkdir <file>'' w)
      | a # _ \<Rightarrow>
          (if a = ''-h'' \<or> a = ''help'' then (Ret (), say ''usage: mkdir <file>'' w)
           else
             except_Exception
               (host_call (CMkdir a) (os_mkdir H a) w)
               (\<lambda>w1. (Ret (), say (''mkdir: '' @ a @ '': File or directory exists'') w1))))"

text \<open>\<open>ush_pwd\<close> (lines 146-148).\<close>

definition ush_pwd :: "('h, 'f) host \<Rightarrow> 'h world \<Rightarrow> unit outcome \<times> 'h world" where
  "ush_pwd H w =
     and_then (host_call CGetcwd (os_getcwd H) w) (\<lambda>d w1. (Ret (), say d w1))"

text \<open>
  \<open>ush_reboot\<close> (lines 150-163): \<open>machine.reset()\<close> and \<open>machine.soft_reset()\<close> do
  not return.
\<close>

definition reboot_usage :: string where
  "reboot_usage =
     ''usage: reboot [hard]'' @ [NL] @
     ''                  by default, a soft reset is performed (reset interpreter only)'' @ [NL] @
     ''                  when '' @ [CHR 0x27] @ ''hard'' @ [CHR 0x27] @
     '' is supplied, act like reset button is pressed''"

definition machine_reset :: "'h world \<Rightarrow> unit outcome \<times> 'h world" where
  "machine_reset w = (Halt HardReset, w\<lparr>calls := calls w @ [CReset]\<rparr>)"

definition machine_soft_reset :: "'h world \<Rightarrow> unit outcome \<times> 'h world" where
  "machine_soft_reset w = (Halt SoftReset, w\<lparr>calls := calls w @ [CSoftReset]\<rparr>)"

definition ush_reboot :: "string list \<Rightarrow> 'h world \<Rightarrow> unit outcome \<times> 'h world" where
  "ush_reboot args w =
     (case args of
        [] \<Rightarrow> machine_soft_reset (say ''Soft reset initiated'' w)
      | a # _ \<Rightarrow>
          (if a = ''-h'' \<or> a = ''help'' then (Ret (), say reboot_usage w)
           else if a = ''hard'' then
             and_then (machine_reset (say ''Hard reset initiated (you will need to reconnect)'' w))
               (\<lambda>_ w1. machine_soft_reset (say ''Soft reset initiated'' w1))
           else machine_soft_reset (say ''Soft reset initiated'' w)))"

text \<open>\<open>ush_rm\<close> (lines 165-173) and \<open>ush_rmdir\<close> (lines 175-183).\<close>

definition ush_rm :: "('h, 'f) host \<Rightarrow> string list \<Rightarrow> 'h world \<Rightarrow> unit outcome \<times> 'h world" where
  "ush_rm H args w =
     (case args of
        [] \<Rightarrow> (Ret (), say ''usage: rm <file>'' w)
      | a # _ \<Rightarrow>
          (if a = ''-h'' \<or> a = ''help'' then (Ret (), say ''usage: rm <file>'' w)
           else
             except_Exception
               (host_call (CRemove a) (os_remove H a) w)
               (\<lambda>w1. (Ret (), say (''rm: '' @ a @ '': No such file (or is a directory)'') w1))))"

definition ush_rmdir :: "('h, 'f) host \<Rightarrow> string list \<Rightarrow> 'h world \<Rightarrow> unit outcome \<times> 'h world" where
  "ush_rmdir H args w =
     (case args of
        [] \<Rightarrow> (Ret (), say ''usage: rmdir <directory>'' w)
      | a # _ \<Rightarrow>
          (if a = ''-h'' \<or> a = ''help'' then (Ret (), say ''usage: rmdir <directory>'' w)
           else
             except_Exception
               (host_call (CRmdir a) (os_rmdir H a) w)
               (\<lambda>w1. (Ret (), say (''rm: '' @ a @ '': No such directory (or is a file)'') w1))))"


section \<open>The HTTP fetch helper\<close>

text \<open>The port is the integer 80 or 443, or the text after the colon of \<open>host:port\<close>.\<close>

datatype port = PInt int | PStr string

definition port_falsy :: "port \<Rightarrow> bool" where
  "port_falsy p = (case p of PInt n \<Rightarrow> n = 0 | PStr s \<Rightarrow> s = [])"

definition port_int :: "('h, 'f) host \<Rightarrow> port \<Rightarrow> exn + int" where
  "port_int H p =
     (case p of
        PInt n \<Rightarrow> Inr n
      | PStr s \<Rightarrow> (case py_int_of_str H s of None \<Rightarrow> Inl ValueError | Some n \<Rightarrow> Inr n))"

definition port_str :: "port \<Rightarrow> string" where
  "port_str p = (case p of PInt n \<Rightarrow> str_int n | PStr s \<Rightarrow> s)"

text \<open>
  Lines 187-192 of \<open>http_get\<close>: the URL split at most three times at a slash, then the
  host part split at its first colon. The result is \<open>(scheme, host, port, path)\<close>.
\<close>

definition http_get_parse :: "string \<Rightarrow> exn + (string \<times> string \<times> port \<times> string)" where
  "http_get_parse url =
     (case py_split ''/'' 3 url of
        [scheme, _, rawhost, path] \<Rightarrow>
          (if CHR '':'' \<in> set rawhost then
             (case py_split '':'' 1 rawhost of
                [host, port] \<Rightarrow> Inr (scheme, host, PStr port, path)
              | _ \<Rightarrow> Inl ValueError)
           else Inr (scheme, rawhost, PInt 80, path))
      | _ \<Rightarrow> Inl ValueError)"

text \<open>\<open>socket.getaddrinfo(host, int(port))[0][-1]\<close>.\<close>

definition resolve ::
  "('h, 'f) host \<Rightarrow> string \<Rightarrow> port \<Rightarrow> 'h world \<Rightarrow> sockaddr outcome \<times> 'h world" where
  "resolve H host port w =
     and_then (lift_sum (port_int H port) w) (\<lambda>n w1.
     and_then (host_call (CGetaddrinfo host n) (getaddrinfo H host n) w1) (\<lambda>res w2.
       (case res of [] \<Rightarrow> (Raise IndexError, w2) | a # _ \<Rightarrow> (Ret a, w2))))"

text \<open>
  Lines 194-204: the socket is created, then the scheme decides. \<open>None\<close> is the return
  after the unknown-scheme message; otherwise the socket, the address and the port.
\<close>

definition http_get_open ::
  "('h, 'f) host \<Rightarrow> string \<Rightarrow> string \<Rightarrow> port \<Rightarrow> 'h world
     \<Rightarrow> (sock \<times> sockaddr \<times> port) option outcome \<times> 'h world" where
  "http_get_open H scheme host port w =
     and_then (host_call CSocket (socket_new H) w) (\<lambda>s w1.
       (if scheme = ''https:'' then
          (let port' = (if port_falsy port then PInt 443 else port) in
           and_then (resolve H host port' w1) (\<lambda>addr w2.
           and_then (host_call (CWrapSocket s) (wrap_socket H s) w2) (\<lambda>s' w3.
             (Ret (Some (s', addr, port')), w3))))
        else if scheme = ''http:'' then
          and_then (resolve H host port w1) (\<lambda>addr w2. (Ret (Some (s, addr, port)), w2))
        else (Ret None, say (''Error: unknown scheme: '' @ scheme) w1)))"

definition http_request :: "string \<Rightarrow> string \<Rightarrow> string" where
  "http_request path host =
     ''GET /'' @ path @ '' HTTP/1.0'' @ [CR, NL] @ ''Host: '' @ host @ [CR, NL] @ [CR, NL]"

text \<open>Lines 205-207: the debug line, the connection and the request.\<close>

definition http_get_send ::
  "('h, 'f) host \<Rightarrow> sock \<Rightarrow> sockaddr \<Rightarrow> string \<Rightarrow> string \<Rightarrow> port \<Rightarrow> string \<Rightarrow> 'h world
     \<Rightarrow> unit outcome \<times> 'h world" where
  "http_get_send H s addr scheme host port path w =
     (let w1 = say (''DEBUG: http_get scheme('' @ scheme @ '') host('' @ host @ '') port(''
                      @ port_str port @ '') path('' @ path @ '')'') w in
      and_then (host_call (CConnect s addr) (sock_connect H s addr) w1) (\<lambda>_ w2.
        host_call (CSend s (http_request path host)) (sock_send H s (http_request path host)) w2))"

text \<open>
  Lines 209-215: the receive loop. It ends when a read returns nothing; a peer that
  always sends keeps it running, and the value is then \<open>None\<close>.
\<close>

partial_function (option) recv_all ::
  "('h, 'f) host \<Rightarrow> sock \<Rightarrow> string \<Rightarrow> 'h world \<Rightarrow> (string outcome \<times> 'h world) option" where
  "recv_all H s response w =
     (case host_call (CRecv s 100) (sock_recv H s 100) w of
        (Ret data, w1) \<Rightarrow>
          (if data \<noteq> [] then recv_all H s (response @ data) w1 else Some (Ret response, w1))
      | (Raise e, w1) \<Rightarrow> Some (Raise e, w1)
      | (Halt h, w1) \<Rightarrow> Some (Halt h, w1))"

text \<open>Line 217: the response decoded and split at the first blank line.\<close>

definition split_response :: "('h, 'f) host \<Rightarrow> string \<Rightarrow> exn + (string \<times> string)" where
  "split_response H response =
     (case py_decode_utf8 H response of
        None \<Rightarrow> Inl UnicodeError
      | Some text \<Rightarrow>
          (case py_split [CR, NL, CR, NL] 1 text of
             [headers, body] \<Rightarrow> Inr (headers, body)
           | _ \<Rightarrow> Inl ValueError))"

text \<open>Lines 228-230: the body written to a new file.\<close>

definition write_body ::
  "('h, 'f) host \<Rightarrow> path \<Rightarrow> string \<Rightarrow> 'h world \<Rightarrow> unit outcome \<times> 'h world" where
  "write_body H output_file body w =
     and_then (host_call (COpenWrite output_file) (open_write H output_file) w) (\<lambda>of' w1.
     and_then (host_call (CWrite of' body) (file_write H of' body) w1) (\<lambda>_ w2.
       host_call (CClose of') (file_close H of') w2))"

text \<open>
  Lines 218-235, the output stage. The message of line 224 is printed as it is written:
  no \<open>format\<close> is applied to it.
\<close>

definition http_get_output ::
  "('h, 'f) host \<Rightarrow> string \<Rightarrow> string \<Rightarrow> path option \<Rightarrow> 'h world \<Rightarrow> unit outcome \<times> 'h world" where
  "http_get_output H headers body output_file w =
     (let w1 = say headers (say ''Headers:'' w) in
      if body \<noteq> [] then
        (case output_file of
           None \<Rightarrow> (Ret (), say body (say ''Body:'' w1))
         | Some p \<Rightarrow>
             (if p \<noteq> [] then
                except_Exception
                  (and_then (host_call (CStat p) (os_stat H p) w1) (\<lambda>_ w2.
                     (Ret (), say ''Error: file {} already exists, will not overwrite'' w2)))
                  (\<lambda>w2. write_body H p body (say (''Writing output to '' @ p) w2))
              else (Ret (), say body (say ''Body:'' w1))))
      else (Ret (), say ''Body: None'' w1))"

text \<open>\<open>http_get\<close> (lines 185-235).\<close>

definition http_get ::
  "('h, 'f) host \<Rightarrow> string \<Rightarrow> path option \<Rightarrow> 'h world \<Rightarrow> (unit outcome \<times> 'h world) option" where
  "http_get H url output_file w =
     (case http_get_parse url of
        Inl e \<Rightarrow> Some (Raise e, w)
      | Inr (scheme, host, port, path) \<Rightarrow>
          (case http_get_open H scheme host port w of
             (Raise e, w1) \<Rightarrow> Some (Raise e, w1)
           | (Halt h, w1) \<Rightarrow> Some (Halt h, w1)
           | (Ret None, w1) \<Rightarrow> Some (Ret (), w1)
           | (Ret (Some (s, addr, port')), w1) \<Rightarrow>
               (case http_get_send H s addr scheme host port' path w1 of
                  (Raise e, w2) \<Rightarrow> Some (Raise e, w2)
                | (Halt h, w2) \<Rightarrow> Some (Halt h, w2)
                | (Ret _, w2) \<Rightarrow>
                    (case recv_all H s [] w2 of
                       None \<Rightarrow> None
                     | Some (Raise e, w3) \<Rightarrow> Some (Raise e, w3)
                     | Some (Halt h, w3) \<Rightarrow> Some (Halt h, w3)
                     | Some (Ret response, w3) \<Rightarrow>
                         (case split_response H response of
                            Inl e \<Rightarrow> Some (Raise e, w3)
                          | Inr (headers, body) \<Rightarrow>
                              Some (http_get_output H headers body output_file w3))))))"

text \<open>\<open>ush_uget\<close> (lines 237-249).\<close>

definition ush_uget ::
  "('h, 'f) host \<Rightarrow> string list \<Rightarrow> 'h world \<Rightarrow> (unit outcome \<times> 'h world) option" where
  "ush_uget H args w =
     (case args of
        [] \<Rightarrow> Some (Ret (), say ''usage: uget [outputfile] <url>'' w)
      | a # _ \<Rightarrow>
          (if length args \<ge> 2 then http_get H (last args) (Some a) w
           else http_get H (last args) None w))"

section \<open>The dispatch loop\<close>

datatype step = Next | Stop

definition continue_after :: "unit outcome \<times> 'w \<Rightarrow> step outcome \<times> 'w" where
  "continue_after r = and_then r (\<lambda>_ w. (Ret Next, w))"

text \<open>
  The body of the loop of \<open>shell\<close> (lines 257-289) for one line read: \<open>Ret Next\<close> goes
  back to the prompt, \<open>Ret Stop\<close> is the \<open>break\<close>.
\<close>

definition shell_body ::
  "('h, 'f) host \<Rightarrow> string \<Rightarrow> 'h world \<Rightarrow> (step outcome \<times> 'h world) option" where
  "shell_body H inp w =
     (if inp = [] then Some (Ret Next, w)
      else
        (case py_split_ws inp of
           [] \<Rightarrow> Some (Raise IndexError, w)
         | cmd # cmd_args \<Rightarrow>
             (if cmd = ''exit'' \<or> cmd = ''quit'' then Some (Ret Stop, w)
              else if cmd = ''cat'' then Some (continue_after (ush_cat H cmd_args w))
              else if cmd = ''cd'' then Some (continue_after (ush_cd H cmd_args w))
              else if cmd = ''df'' then Some (continue_after (ush_df H cmd_args w))
              else if cmd = ''free'' \<or> cmd = ''meminfo'' \<or> cmd = ''vmstat'' then
                Some (continue_after (ush_meminfo H cmd_args w))
              else if cmd = ''help'' then Some (continue_after (ush_help w))
              else if cmd = ''ls'' then Some (continue_after (ush_ls H cmd_args w))
              else if cmd = ''mkdir'' then Some (continue_after (ush_mkdir H cmd_args w))
              else if cmd = ''pwd'' then Some (continue_after (ush_pwd H w))
              else if cmd = ''reboot'' then Some (continue_after (ush_reboot cmd_args w))
              else if cmd = ''rm'' then Some (continue_after (ush_rm H cmd_args w))
              else if cmd = ''rmdir'' then Some (continue_after (ush_rmdir H cmd_args w))
              else if cmd = ''uget'' \<or> cmd = ''wget'' then
                map_option continue_after (ush_uget H cmd_args w)
              else Some (Ret Next, say (''ush: command not found: '' @ cmd) w))))"

text \<open>
  \<open>shell\<close> (lines 253-289) on the lines its input still holds: \<open>input('$ ')\<close> writes
  the prompt and reads one; at the end of the input it raises.
\<close>

fun shell ::
  "('h, 'f) host \<Rightarrow> string list \<Rightarrow> 'h world \<Rightarrow> (unit outcome \<times> 'h world) option" where
  "shell H [] w = Some (Raise EOFError, emit ''$ '' w)"
| "shell H (inp # rest) w =
     (case shell_body H inp (emit ''$ '' w) of
        None \<Rightarrow> None
      | Some (Ret Next, w1) \<Rightarrow> shell H rest w1
      | Some (Ret Stop, w1) \<Rightarrow> Some (Ret (), w1)
      | Some (Raise e, w1) \<Rightarrow> Some (Raise e, w1)
      | Some (Halt h, w1) \<Rightarrow> Some (Halt h, w1))"

text \<open>The names the loop knows: the command table.\<close>

definition command_table :: "string list" where
  "command_table =
     [''exit'', ''quit'', ''cat'', ''cd'', ''df'', ''free'', ''meminfo'', ''vmstat'', ''help'',
      ''ls'', ''mkdir'', ''pwd'', ''reboot'', ''rm'', ''rmdir'', ''uget'', ''wget'']"


section \<open>A small host to run the code on\<close>

text \<open>
  A device whose flash holds a list of named files and whose network peer sends a fixed
  list of chunks and then closes. Every other path is missing, every address resolves,
  and its numbers are exact rationals.
\<close>

record sim =
  files :: "(path \<times> string) list"
  opened :: "path option"
  inbox :: "string list"

fun dec_value :: "int \<Rightarrow> string \<Rightarrow> int option" where
  "dec_value acc [] = Some acc"
| "dec_value acc (c # cs) =
     (if (48::nat) \<le> of_char c \<and> (of_char c :: nat) \<le> 57
      then dec_value (10 * acc + (int (of_char c) - 48)) cs else None)"

definition sim_int_of_str :: "string \<Rightarrow> int option" where
  "sim_int_of_str s = (if s = [] then None else dec_value 0 s)"

definition sim_repr_list :: "string list \<Rightarrow> string" where
  "sim_repr_list xs = ''['' @ concat (map (\<lambda>x. [CHR 0x27] @ x @ [CHR 0x27] @ '','') xs) @ '']''"

definition sim_lookup :: "path \<Rightarrow> sim \<Rightarrow> string outcome \<times> sim" where
  "sim_lookup p h = (case map_of (files h) p of None \<Rightarrow> (Raise OSError, h) | Some t \<Rightarrow> (Ret t, h))"

definition sim_stat :: "path \<Rightarrow> sim \<Rightarrow> stat_result outcome \<times> sim" where
  "sim_stat p h =
     (case map_of (files h) p of
        None \<Rightarrow> (Raise OSError, h)
      | Some t \<Rightarrow> (Ret \<lparr>st_size = int (length t)\<rparr>, h))"

definition sim_open_write :: "path \<Rightarrow> sim \<Rightarrow> fd outcome \<times> sim" where
  "sim_open_write p h = (Ret 3, h\<lparr>files := (p, []) # files h, opened := Some p\<rparr>)"

definition sim_file_write :: "fd \<Rightarrow> string \<Rightarrow> sim \<Rightarrow> unit outcome \<times> sim" where
  "sim_file_write f t h =
     (case opened h of
        None \<Rightarrow> (Raise OSError, h)
      | Some p \<Rightarrow>
          (case map_of (files h) p of
             None \<Rightarrow> (Raise OSError, h)
           | Some old \<Rightarrow> (Ret (), h\<lparr>files := (p, old @ t) # files h\<rparr>)))"

definition sim_file_close :: "fd \<Rightarrow> sim \<Rightarrow> unit outcome \<times> sim" where
  "sim_file_close f h = (Ret (), h\<lparr>opened := None\<rparr>)"

definition sim_recv :: "sock \<Rightarrow> nat \<Rightarrow> sim \<Rightarrow> string outcome \<times> sim" where
  "sim_recv s n h =
     (case inbox h of [] \<Rightarrow> (Ret [], h) | d # ds \<Rightarrow> (Ret d, h\<lparr>inbox := ds\<rparr>))"

definition sim_truediv :: "int \<Rightarrow> int \<Rightarrow> exn + rat" where
  "sim_truediv a b = (if b = 0 then Inl ZeroDivisionError else Inr (of_int a / of_int b))"

definition sim_div_float :: "int \<Rightarrow> rat \<Rightarrow> exn + rat" where
  "sim_div_float a x = (if x = 0 then Inl ZeroDivisionError else Inr (of_int a / x))"

definition sim_trunc :: "rat \<Rightarrow> exn + int" where
  "sim_trunc x = Inr (if 0 \<le> x then \<lfloor>x\<rfloor> else \<lceil>x\<rceil>)"

definition sim_host :: "(sim, rat) host" where
  "sim_host =
     \<lparr> py_int_of_str = sim_int_of_str,
       py_repr_list = sim_repr_list,
       py_decode_utf8 = Some,
       int_truediv = sim_truediv,
       int_mul_float = (\<lambda>a x. Inr (of_int a * x)),
       int_div_float = sim_div_float,
       float_mul_int = (\<lambda>x a. Inr (x * of_int a)),
       math_trunc = sim_trunc,
       read_text = sim_lookup,
       os_chdir = (\<lambda>p h. (Raise OSError, h)),
       os_statvfs = (\<lambda>p h. (Raise OSError, h)),
       os_stat = sim_stat,
       os_ilistdir = (\<lambda>h. (Ret (map (\<lambda>(p, t). (p, 32768, 0, Some (int (length t)))) (files h)), h)),
       os_listdir = (\<lambda>p h. (Ret (map fst (files h)), h)),
       os_mkdir = (\<lambda>p h. (Raise OSError, h)),
       os_remove = (\<lambda>p h. (Raise OSError, h)),
       os_rmdir = (\<lambda>p h. (Raise OSError, h)),
       os_getcwd = (\<lambda>h. (Ret ''/'', h)),
       open_write = sim_open_write,
       file_write = sim_file_write,
       file_close = sim_file_close,
       mem_info = (\<lambda>a h. (Ret [], h)),
       qstr_info = (\<lambda>h. (Ret [], h)),
       socket_new = (\<lambda>h. (Ret 0, h)),
       getaddrinfo = (\<lambda>n p h. (Ret [(n, p)], h)),
       wrap_socket = (\<lambda>s h. (Ret s, h)),
       sock_connect = (\<lambda>s a h. (Ret (), h)),
       sock_send = (\<lambda>s t h. (Ret (), h)),
       sock_recv = sim_recv \<rparr>"

definition sim_world :: "(path \<times> string) list \<Rightarrow> string list \<Rightarrow> sim world" where
  "sim_world fs chunks =
     \<lparr> console = [], calls = [], hst = \<lparr> files = fs, opened = None, inbox = chunks \<rparr> \<rparr>"



section \<open>What the calls of a run say about sockets\<close>

text \<open>The sockets a list of host calls closes.\<close>

fun closed_socks :: "call list \<Rightarrow> sock list" where
  "closed_socks [] = []"
| "closed_socks (CSockClose s # cs) = s # closed_socks cs"
| "closed_socks (_ # cs) = closed_socks cs"

text \<open>
  From \<open>w\<close> to \<open>w'\<close> the run made further host calls, none of them closing a socket and
  \<open>k\<close> of them creating one.
\<close>

definition adds :: "'h world \<Rightarrow> 'h world \<Rightarrow> nat \<Rightarrow> bool" where
  "adds w w' k =
     (\<exists>cs. calls w' = calls w @ cs \<and> closed_socks cs = [] \<and> count_list cs CSocket = k)"

section \<open>Evaluation on the small host\<close>

lemmas run_defs =
  http_get_def http_get_parse_def numeral_3_eq_3 http_get_open_def host_call_def and_then_def
  resolve_def lift_sum_def port_int_def port_falsy_def sim_host_def sim_world_def
  http_get_send_def split_response_def http_get_output_def say_def emit_def
  except_Exception_def write_body_def sim_recv_def sim_stat_def sim_open_write_def
  sim_file_write_def sim_file_close_def is_Exception_def CR_def NL_def


lemmas shell_defs =
  shell_body_def py_split_ws_def is_space_def continue_after_def and_then_def host_call_def
  say_def emit_def sim_host_def sim_world_def

section \<open>The dispatch loop\<close>

lemma continue_after_not_Stop: "continue_after r \<noteq> (Ret Stop, w')"
  by (auto simp: continue_after_def and_then_def split: prod.splits outcome.splits)

lemma map_continue_not_Stop: "map_option continue_after x \<noteq> Some (Ret Stop, w')"
  by (cases x) (simp_all add: continue_after_not_Stop)

text \<open>
  C1: every handler is to catch its failures, so that no error leaves a handler for the
  loop. \<open>ush_ls\<close> has no \<open>try\<close>: on the small host with an empty flash,
  \<open>ls -l nosuchfile\<close> makes \<open>os.stat\<close> raise, the error leaves the handler and ends
  the loop before the next line is read.
\<close>

theorem ls_error_leaves_handler:
  "shell sim_host [''ls -l nosuchfile'', ''help''] (sim_world [] []) =
     Some (Raise OSError,
       \<lparr> console = ''$ '', calls = [CStat ''nosuchfile''],
         hst = \<lparr> files = [], opened = None, inbox = [] \<rparr> \<rparr>)"
  by (simp add: shell_defs ush_ls_def sim_stat_def)

text \<open>
  The handlers that do catch: \<open>rm\<close> on a file the host cannot remove prints its line
  and returns. A URL without its slashes makes the unpacking of line 187 raise, and
  neither \<open>http_get\<close> nor \<open>ush_uget\<close> catches that.
\<close>

lemma rm_failure_is_caught:
  assumes "os_remove H a (hst w) = (Raise e, h1)" and "is_Exception e"
    and "a \<noteq> ''-h''" and "a \<noteq> ''help''"
  shows "ush_rm H (a # rest) w =
           (Ret (),
            \<lparr> console = console w @ ''rm: '' @ a @ '': No such file (or is a directory)'' @ [NL],
              calls = calls w @ [CRemove a], hst = h1 \<rparr>)"
  using assms by (simp add: ush_rm_def except_Exception_def host_call_def say_def)

lemma uget_malformed_url_raises:
  "shell H [''uget example.com'', ''help''] w = Some (Raise ValueError, emit ''$ '' w)"
  by (simp add: shell_body_def py_split_ws_def is_space_def ush_uget_def http_get_def
      http_get_parse_def numeral_3_eq_3 continue_after_def and_then_def)

text \<open>
  C3: a line without tokens is to be ignored. A line of blanks is not empty, so the
  guard of line 257 lets it pass, and \<open>cmd_args.pop(0)\<close> raises on the empty token list.
\<close>

theorem blank_line_raises:
  "shell H [''   '', ''help''] w = Some (Raise IndexError, emit ''$ '' w)"
  by (simp add: shell_body_def py_split_ws_def is_space_def)

lemma empty_line_ignored: "shell_body H [] w = Some (Ret Next, w)"
  by (simp add: shell_body_def)

text \<open>
  C4: only \<open>exit\<close> and \<open>quit\<close> are to end the loop, whatever else is typed. The two
  defects above end it as well: the error that leaves \<open>ush_ls\<close>, and the
  \<open>IndexError\<close> of a line of white space (here a single tab). In both runs the first
  token, where there is one, is neither \<open>exit\<close> nor \<open>quit\<close>, and the line that
  follows is never read.
\<close>

theorem loop_ends_without_exit:
  "py_split_ws ''ls -l missing.txt'' = [''ls'', ''-l'', ''missing.txt'']
   \<and> shell sim_host [''ls -l missing.txt'', ''help''] (sim_world [] []) =
     Some (Raise OSError,
       \<lparr> console = ''$ '', calls = [CStat ''missing.txt''],
         hst = \<lparr> files = [], opened = None, inbox = [] \<rparr> \<rparr>)
   \<and> py_split_ws [CHR 0x09] = []
   \<and> shell sim_host [[CHR 0x09], ''help''] (sim_world [] []) =
     Some (Raise IndexError,
       \<lparr> console = ''$ '', calls = [],
         hst = \<lparr> files = [], opened = None, inbox = [] \<rparr> \<rparr>)"
  by (simp add: shell_defs ush_ls_def sim_stat_def)

text \<open>
  The ways the loop does end by design: \<open>reboot\<close> hands over to the reset of the
  host, which does not return, and the \<open>break\<close> is taken exactly on \<open>exit\<close> and
  \<open>quit\<close>.
\<close>

lemma reboot_ends_loop:
  "shell sim_host [''reboot'', ''help''] (sim_world [] []) =
     Some (Halt SoftReset,
       \<lparr> console = ''$ Soft reset initiated'' @ [NL], calls = [CSoftReset],
         hst = \<lparr> files = [], opened = None, inbox = [] \<rparr> \<rparr>)"
  by (simp add: shell_defs ush_reboot_def machine_soft_reset_def NL_def)

lemma break_iff_exit_or_quit:
  "shell_body H inp w = Some (Ret Stop, w') \<longleftrightarrow>
     w' = w \<and> (case py_split_ws inp of [] \<Rightarrow> False | cmd # _ \<Rightarrow> cmd = ''exit'' \<or> cmd = ''quit'')"
proof (cases "inp = []")
  case True
  then show ?thesis by (simp add: shell_body_def py_split_ws_def)
next
  case False
  show ?thesis
  proof (cases "py_split_ws inp")
    case Nil
    with False show ?thesis by (simp add: shell_body_def)
  next
    case (Cons cmd args)
    with False show ?thesis
      by (simp add: shell_body_def continue_after_not_Stop map_continue_not_Stop) blast
  qed
qed

text \<open>
  C9: for every line whose first token is not in the command table, the loop prints
  exactly \<open>ush: command not found: <cmd>\<close> and goes back to the prompt.
\<close>

theorem unknown_command:
  assumes "py_split_ws inp = cmd # args" and "cmd \<notin> set command_table"
  shows "shell_body H inp w = Some (Ret Next, say (''ush: command not found: '' @ cmd) w)
         \<and> shell H (inp # rest) w =
             shell H rest (say (''ush: command not found: '' @ cmd) (emit ''$ '' w))"
proof -
  from assms(1) have ne: "inp \<noteq> []" by (auto simp: py_split_ws_def)
  with assms have
    "shell_body H inp w = Some (Ret Next, say (''ush: command not found: '' @ cmd) w)" for w
    by (simp add: shell_body_def command_table_def)
  then show ?thesis by simp
qed

theorem unknown_command_witness:
  "py_split_ws ''frobnicate now'' = [''frobnicate'', ''now'']
   \<and> ''frobnicate'' \<notin> set command_table
   \<and> shell_body sim_host ''frobnicate now'' (sim_world [] []) =
       Some (Ret Next,
         \<lparr> console = ''ush: command not found: frobnicate'' @ [NL], calls = [],
           hst = \<lparr> files = [], opened = None, inbox = [] \<rparr> \<rparr>)"
proof -
  have h1: "py_split_ws ''frobnicate now'' = ''frobnicate'' # [''now'']"
    by (simp add: py_split_ws_def is_space_def)
  have h2: "''frobnicate'' \<notin> set command_table"
    by (simp add: command_table_def)
  show ?thesis
    using h1 h2 unknown_command [OF h1 h2, of sim_host "sim_world [] []" "[]"]
    by (simp add: say_def sim_world_def)
qed

section \<open>Disk usage\<close>

text \<open>
  Whatever the arithmetic of \<open>ush_df\<close> raises is caught together with the failures of
  \<open>os.statvfs\<close>; a size of zero makes the division of line 77 raise.
\<close>

lemma df_arith_error_is_caught:
  assumes "path = (case args of [] \<Rightarrow> ''/'' | p # _ \<Rightarrow> p)"
    and "os_statvfs H path (hst w) = (Ret sv, h1)"
    and "df_arith H sv = Inl e" and "is_Exception e"
  shows "ush_df H args w =
           (Ret (),
            \<lparr> console = console w @ ''df: no such file or directory: '' @ path @ [NL],
              calls = calls w @ [CStatvfs (path)], hst = h1 \<rparr>)"
  using assms
  by (simp add: ush_df_def Let_def host_call_def and_then_def lift_sum_def
      except_Exception_def say_def)

lemma df_zero_size_raises:
  assumes "int_truediv H (f_frsize sv) 1024 = Inr m"
    and "(if f_frsize sv > 1024 then int_mul_float H (f_blocks sv) m
          else int_div_float H (f_blocks sv) m) = Inr a"
    and "math_trunc H a = Inr 0"
    and "(if f_frsize sv > 1024 then int_mul_float H (f_bfree sv) m
          else int_div_float H (f_bfree sv) m) = Inr b"
    and "math_trunc H b = Inr adj_avail"
    and "int_truediv H (0 - adj_avail) 0 = Inl ZeroDivisionError"
  shows "df_arith H sv = Inl ZeroDivisionError"
  using assms by (simp add: df_arith_def sum_bind_def split: if_splits)




section \<open>The fetch helper\<close>

text \<open>
  C8: the URL \<open>https://example.com:8443/a/b\<close> parses to the scheme \<open>https\<close> with the
  colon the split leaves on it, the host \<open>example.com\<close>, the port \<open>8443\<close> and the path
  \<open>a/b\<close> without a leading slash.
\<close>

theorem parse_example_url:
  "http_get_parse ''https://example.com:8443/a/b'' =
     Inr (''https'' @ '':'', ''example.com'', PStr ''8443'', ''a/b'')"
  by (simp add: http_get_parse_def numeral_3_eq_3)

text \<open>
  C2: without a colon in the host part the port is to be 80 for http and 443 for https.
  Line 192 sets it to 80 before the scheme is looked at, so the test \<open>not port\<close> of line
  196 fails and an https fetch resolves and connects to port 80.
\<close>

theorem https_default_port_is_80:
  "map_option (\<lambda>(r, w). (r, calls w))
     (http_get sim_host ''https://example.com/index.html'' None
        (sim_world [] [''HTTP/1.0 200 OK'' @ [CR, NL, CR, NL] @ ''hello''])) =
   Some (Ret (),
     [CSocket, CGetaddrinfo ''example.com'' 80, CWrapSocket 0,
      CConnect 0 (''example.com'', 80), CSend 0 (http_request ''index.html'' ''example.com''),
      CRecv 0 100, CRecv 0 100])"
  by (simp add: run_defs recv_all.simps)

text \<open>
  C10: when the body of the response is empty, the output stage prints the headers and
  \<open>Body: None\<close> and does nothing else, with or without an output path: it makes no host
  call and the host's state is as it was.
\<close>

theorem empty_body_output:
  "http_get_output H headers [] output_file w =
     (Ret (),
      w\<lparr>console := console w @ ''Headers:'' @ [NL] @ headers @ [NL] @ ''Body: None'' @ [NL]\<rparr>)"
  by (simp add: http_get_output_def say_def)

subsection \<open>Sockets\<close>

lemma closed_socks_append: "closed_socks (a @ b) = closed_socks a @ closed_socks b"
  by (induction a rule: closed_socks.induct) simp_all

lemma adds_refl: "adds w w 0"
  by (simp add: adds_def)

lemma adds_trans: "adds w w1 j \<Longrightarrow> adds w1 w2 k \<Longrightarrow> adds w w2 (j + k)"
  by (auto simp: adds_def closed_socks_append)

lemma adds_trans0: "adds w w1 j \<Longrightarrow> adds w1 w2 0 \<Longrightarrow> adds w w2 j"
  using adds_trans [of w w1 j w2 0] by simp

lemma adds_say: "adds w w1 j \<Longrightarrow> adds w (say t w1) j"
  by (simp add: adds_def say_def)

lemma adds_host_call:
  assumes "closed_socks [c] = []"
  shows "adds w (snd (host_call c f w)) (count_list [c] CSocket)"
proof -
  have "calls (snd (host_call c f w)) = calls w @ [c]"
    by (auto simp: host_call_def split: prod.splits)
  with assms show ?thesis unfolding adds_def by blast
qed

lemma adds_socket: "adds w (snd (host_call CSocket f w)) 1"
  using adds_host_call [where c = CSocket and w = w and f = f] by simp

lemma adds_and_then:
  assumes "adds w (snd m) j" and "\<And>x w1. adds w1 (snd (k x w1)) 0"
  shows "adds w (snd (and_then m k)) j"
proof (cases m)
  case (Pair r w1)
  show ?thesis
  proof (cases r)
    case (Ret x)
    with Pair assms(1) assms(2) [of w1 x] show ?thesis
      by (simp add: and_then_def adds_trans0)
  next
    case (Raise e)
    with Pair assms(1) show ?thesis by (simp add: and_then_def)
  next
    case (Halt h)
    with Pair assms(1) show ?thesis by (simp add: and_then_def)
  qed
qed

lemma adds_except:
  assumes "adds w (snd m) j" and "\<And>w1. adds w1 (snd (h w1)) 0"
  shows "adds w (snd (except_Exception m h)) j"
proof (cases m)
  case (Pair r w1)
  with assms(1) assms(2) [of w1] show ?thesis
    by (cases r) (auto simp: except_Exception_def adds_trans0)
qed

lemma adds_lift_sum: "adds w (snd (lift_sum r w)) 0"
  by (cases r) (simp_all add: lift_sum_def adds_refl)

lemma adds_resolve: "adds w (snd (resolve H host port w)) 0"
  unfolding resolve_def
  apply (rule adds_and_then [OF adds_lift_sum])
  apply (rule adds_and_then)
   apply (rule adds_host_call [where c = "CGetaddrinfo _ _", simplified])
  apply (simp add: adds_refl split: list.splits)
  done

lemma adds_open: "adds w (snd (http_get_open H scheme host port w)) 1"
  unfolding http_get_open_def
  apply (rule adds_and_then)
   apply (rule adds_socket)
  apply (simp add: Let_def)
  apply (intro conjI impI adds_and_then adds_resolve adds_say adds_refl)
       apply (simp_all add: adds_refl)
   apply (rule adds_host_call [where c = "CWrapSocket _", simplified])+
  done

lemma adds_send: "adds w (snd (http_get_send H s addr scheme host port path w)) 0"
  unfolding http_get_send_def Let_def
  apply (rule adds_and_then)
   apply (rule adds_trans0 [OF adds_say [OF adds_refl]])
   apply (rule adds_host_call [where c = "CConnect _ _", simplified])
  apply (rule adds_host_call [where c = "CSend _ _", simplified])
  done

lemma adds_write_body: "adds w (snd (write_body H p body w)) 0"
  unfolding write_body_def
  apply (rule adds_and_then)
   apply (rule adds_host_call [where c = "COpenWrite _", simplified])
  apply (rule adds_and_then)
   apply (rule adds_host_call [where c = "CWrite _ _", simplified])
  apply (rule adds_host_call [where c = "CClose _", simplified])
  done

lemma adds_output: "adds w (snd (http_get_output H headers body output_file w)) 0"
  unfolding http_get_output_def Let_def
  apply (simp split: option.splits)
  apply (intro conjI impI allI adds_say adds_refl adds_except)
   apply (rule adds_and_then)
    apply (rule adds_trans0 [OF adds_say [OF adds_say [OF adds_refl]]])
    apply (rule adds_host_call [where c = "CStat _", simplified])
   apply (simp add: adds_say adds_refl)
  apply (rule adds_trans0 [OF adds_say [OF adds_refl]])
  apply (rule adds_write_body)
  done

lemma adds_recv_all:
  assumes "recv_all H s response w = Some y"
  shows "adds w (snd y) 0"
proof (rule recv_all.raw_induct [where P = "\<lambda>_ _ _ w y. adds w (snd y) 0", OF _ assms])
  fix rec :: "('a, 'b) host \<Rightarrow> sock \<Rightarrow> string \<Rightarrow> 'a world \<Rightarrow> (string outcome \<times> 'a world) option"
  fix H s response w y
  assume IH: "\<And>H s response w y. rec H s response w = Some y \<Longrightarrow> adds w (snd y) 0"
  assume eq: "(case host_call (CRecv s 100) (sock_recv H s 100) w of
      (Ret data, w1) \<Rightarrow>
        if data \<noteq> [] then rec H s (response @ data) w1 else Some (Ret response, w1)
      | (Raise e, w1) \<Rightarrow> Some (Raise e, w1)
      | (Halt h, w1) \<Rightarrow> Some (Halt h, w1)) = Some y"
  have hc: "adds w (snd (host_call (CRecv s 100) (sock_recv H s 100) w)) 0"
    using adds_host_call [where c = "CRecv s 100" and w = w and f = "sock_recv H s 100"] by simp
  show "adds w (snd y) 0"
  proof (cases "host_call (CRecv s 100) (sock_recv H s 100) w")
    case (Pair r w1)
    with hc have a1: "adds w w1 0" by simp
    show ?thesis
    proof (cases r)
      case (Ret d)
      show ?thesis
      proof (cases "d = []")
        case True
        with eq Pair Ret a1 show ?thesis by auto
      next
        case False
        with eq Pair Ret have "rec H s (response @ d) w1 = Some y" by simp
        from a1 IH [OF this] show ?thesis by (rule adds_trans0)
      qed
    next
      case (Raise e)
      with eq Pair a1 show ?thesis by auto
    next
      case (Halt h)
      with eq Pair a1 show ?thesis by auto
    qed
  qed
qed

lemma count_list_append': "count_list (a @ b) x = count_list a x + count_list b x"
  by (induction a) simp_all


text \<open>
  C5, as stated, fails: a fetch that succeeds has created a socket and closed none.
\<close>

theorem fetch_leaves_socket_open:
  "map_option (\<lambda>(r, w). (r, count_list (calls w) CSocket, closed_socks (calls w)))
     (http_get sim_host ''http://example.com/index.html'' None
        (sim_world [] [''HTTP/1.0 200 OK'' @ [CR, NL, CR, NL] @ ''hello''])) =
   Some (Ret (), 1, [])"
  by (simp add: run_defs recv_all.simps)

text \<open>
  C5, amended: on every exit path of the fetch helper (it returns or it raises), the
  helper has closed no socket; it has created exactly one when the URL split into its
  four parts, and none otherwise.
\<close>

theorem fetch_never_closes_socket:
  assumes "http_get H url output_file w = Some (r, w')"
  shows "closed_socks (calls w') = closed_socks (calls w) \<and>
         count_list (calls w') CSocket =
           count_list (calls w) CSocket + (case http_get_parse url of Inl _ \<Rightarrow> 0 | Inr _ \<Rightarrow> 1)"
proof (cases "http_get_parse url")
  case (Inl e)
  with assms show ?thesis by (simp add: http_get_def)
next
  case (Inr q)
  obtain scheme host port path where q: "q = (scheme, host, port, path)"
    by (cases q) auto
  obtain r1 w1 where o: "http_get_open H scheme host port w = (r1, w1)"
    by (cases "http_get_open H scheme host port w") auto
  have a1: "adds w w1 1" using adds_open [of w H scheme host port] o by simp
  have "adds w w' 1"
  proof (cases r1)
    case (Raise e)
    with assms Inr q o a1 show ?thesis by (simp add: http_get_def)
  next
    case (Halt h)
    with assms Inr q o a1 show ?thesis by (simp add: http_get_def)
  next
    case (Ret v)
    show ?thesis
    proof (cases v)
      case None
      with assms Inr q o a1 Ret show ?thesis by (simp add: http_get_def)
    next
      case (Some t)
      obtain s addr port' where t: "t = (s, addr, port')" by (cases t) auto
      obtain r2 w2 where sd: "http_get_send H s addr scheme host port' path w1 = (r2, w2)"
        by (cases "http_get_send H s addr scheme host port' path w1") auto
      have a2: "adds w w2 1"
        using adds_trans0 [OF a1] adds_send [of w1 H s addr scheme host port' path] sd by simp
      show ?thesis
      proof (cases r2)
        case (Raise e)
        with assms Inr q o Ret Some t sd a2 show ?thesis by (simp add: http_get_def)
      next
        case (Halt h)
        with assms Inr q o Ret Some t sd a2 show ?thesis by (simp add: http_get_def)
      next
        case (Ret u)
        note r2 = this
        show ?thesis
        proof (cases "recv_all H s [] w2")
          case None
          with assms Inr q o \<open>r1 = Ret v\<close> Some t sd r2 show ?thesis by (simp add: http_get_def)
        next
          case (Some y)
          note rv = this
          obtain r3 w3 where y: "y = (r3, w3)" by (cases y) auto
          have a3: "adds w w3 1"
            using adds_trans0 [OF a2] adds_recv_all [OF rv] y by simp
          from assms Inr q o \<open>r1 = Ret v\<close> \<open>v = Some t\<close> t sd r2 rv y
          have eq: "(case r3 of
                      Raise e \<Rightarrow> Some (Raise e, w3)
                    | Halt h \<Rightarrow> Some (Halt h, w3)
                    | Ret response \<Rightarrow>
                        (case split_response H response of
                           Inl e \<Rightarrow> Some (Raise e, w3)
                         | Inr (headers, body) \<Rightarrow>
                             Some (http_get_output H headers body output_file w3))) = Some (r, w')"
            by (simp add: http_get_def split: outcome.splits)
          show ?thesis
          proof (cases r3)
            case (Raise e)
            with eq a3 show ?thesis by simp
          next
            case (Halt h)
            with eq a3 show ?thesis by simp
          next
            case (Ret response)
            show ?thesis
            proof (cases "split_response H response")
              case (Inl e)
              with eq Ret a3 show ?thesis by simp
            next
              case (Inr hb)
              obtain headers body where hb: "hb = (headers, body)" by (cases hb) auto
              from eq Ret Inr hb have "http_get_output H headers body output_file w3 = (r, w')"
                by simp
              with adds_output [of w3 H headers body output_file] have "adds w3 w' 0" by simp
              with a3 show ?thesis by (rule adds_trans0)
            qed
          qed
        qed
      qed
    qed
  qed
  then obtain cs where "calls w' = calls w @ cs" "closed_socks cs = []" "count_list cs CSocket = 1"
    unfolding adds_def by blast
  with Inr show ?thesis by (simp add: closed_socks_append count_list_append')
qed

theorem fetch_never_closes_socket_witness:
  "http_get sim_host ''ftp://example.com/x'' None (sim_world [] []) =
     Some (Ret (),
       \<lparr> console = ''Error: unknown scheme: ftp:'' @ [NL], calls = [CSocket],
         hst = \<lparr> files = [], opened = None, inbox = [] \<rparr> \<rparr>)
   \<and> closed_socks [CSocket] = closed_socks []
   \<and> count_list [CSocket] CSocket = 0 + 1"
proof -
  have h: "http_get sim_host ''ftp://example.com/x'' None (sim_world [] []) =
     Some (Ret (),
       \<lparr> console = ''Error: unknown scheme: ftp:'' @ [NL], calls = [CSocket],
         hst = \<lparr> files = [], opened = None, inbox = [] \<rparr> \<rparr>)"
    by (simp add: run_defs)
  have p: "http_get_parse ''ftp://example.com/x'' = Inr (''ftp:'', ''example.com'', PInt 80, ''x'')"
    by (simp add: http_get_parse_def numeral_3_eq_3)
  show ?thesis
    using h fetch_never_closes_socket [OF h] p by (simp add: sim_world_def)
qed


subsection \<open>The output file\<close>

text \<open>A fetch whose stages all return hands the split response to the output stage.\<close>

lemma fetch_reaches_output:
  assumes "http_get_parse url = Inr (scheme, host, port, path)"
    and "http_get_open H scheme host port w = (Ret (Some (s, addr, port')), w1)"
    and "http_get_send H s addr scheme host port' path w1 = (Ret (), w2)"
    and "recv_all H s [] w2 = Some (Ret response, w3)"
    and "split_response H response = Inr (headers, body)"
  shows "http_get H url output_file w = Some (http_get_output H headers body output_file w3)"
  using assms by (simp add: http_get_def)

text \<open>
  C6, as stated, fails: with an output path that exists and a response whose body is
  empty, the fetch prints no diagnostic about the file; it never looks at the path.
\<close>

theorem output_empty_body_no_diagnostic:
  "map_option (\<lambda>(r, w). (r, console w, calls w, files (hst w)))
     (http_get sim_host ''http://example.com/empty'' (Some ''out.txt'')
        (sim_world [(''out.txt'', ''old'')] [''HTTP/1.0 204 No Content'' @ [CR, NL, CR, NL]])) =
   Some (Ret (),
     ''DEBUG: http_get scheme(http:) host(example.com) port(80) path(empty)'' @ [NL] @
     ''Headers:'' @ [NL] @ ''HTTP/1.0 204 No Content'' @ [NL] @ ''Body: None'' @ [NL],
     [CSocket, CGetaddrinfo ''example.com'' 80, CConnect 0 (''example.com'', 80),
      CSend 0 (http_request ''empty'' ''example.com''), CRecv 0 100, CRecv 0 100],
     [(''out.txt'', ''old'')])"
  by (simp add: run_defs recv_all.simps port_str_def str_int_def str_nat.simps [of 80]
      str_nat.simps [of 8] digit_char_def)

text \<open>
  C6, amended: for every fetch with a non-empty output path whose response body is not
  empty, the output stage asks \<open>os.stat\<close> for the path. When that returns, it prints the
  line that ends in \<open>already exists, will not overwrite\<close> and makes no other host call.
  When it raises an exception, it prints \<open>Writing output to <path>\<close>, opens the path for
  writing, writes the body as it is and closes the file.
\<close>

theorem output_to_file:
  assumes "body \<noteq> []" and "p \<noteq> []"
  shows "(\<forall>st h1. os_stat H p (hst w) = (Ret st, h1) \<longrightarrow>
            http_get_output H headers body (Some p) w =
              (Ret (),
               \<lparr> console = console w @ ''Headers:'' @ [NL] @ headers @ [NL] @
                   ''Error: file {} already exists, will not overwrite'' @ [NL],
                 calls = calls w @ [CStat p], hst = h1 \<rparr>))
       \<and> (\<forall>e h1 f h2 h3 h4.
            os_stat H p (hst w) = (Raise e, h1) \<and> is_Exception e \<and>
            open_write H p h1 = (Ret f, h2) \<and> file_write H f body h2 = (Ret (), h3) \<and>
            file_close H f h3 = (Ret (), h4) \<longrightarrow>
            http_get_output H headers body (Some p) w =
              (Ret (),
               \<lparr> console = console w @ ''Headers:'' @ [NL] @ headers @ [NL] @
                   ''Writing output to '' @ p @ [NL],
                 calls = calls w @ [CStat p, COpenWrite p, CWrite f body, CClose f],
                 hst = h4 \<rparr>))"
  using assms
  by (simp add: http_get_output_def say_def host_call_def and_then_def except_Exception_def
      write_body_def)

theorem output_to_file_witness:
  "http_get_output sim_host ''HTTP/1.0 200 OK'' ''hello'' (Some ''out.txt'')
       (sim_world [(''out.txt'', ''old'')] []) =
     (Ret (),
      \<lparr> console = ''Headers:'' @ [NL] @ ''HTTP/1.0 200 OK'' @ [NL] @
          ''Error: file {} already exists, will not overwrite'' @ [NL],
        calls = [CStat ''out.txt''],
        hst = \<lparr> files = [(''out.txt'', ''old'')], opened = None, inbox = [] \<rparr> \<rparr>)
   \<and> http_get_output sim_host ''HTTP/1.0 200 OK'' ''hello'' (Some ''out.txt'')
       (sim_world [] []) =
     (Ret (),
      \<lparr> console = ''Headers:'' @ [NL] @ ''HTTP/1.0 200 OK'' @ [NL] @
          ''Writing output to out.txt'' @ [NL],
        calls = [CStat ''out.txt'', COpenWrite ''out.txt'', CWrite 3 ''hello'', CClose 3],
        hst = \<lparr> files = [(''out.txt'', ''hello''), (''out.txt'', [])], opened = None,
                inbox = [] \<rparr> \<rparr>)"
proof -
  have nz: "''hello'' \<noteq> []" "''out.txt'' \<noteq> []" by simp_all
  note T = output_to_file [OF nz, of sim_host]
  have a: "os_stat sim_host ''out.txt'' (hst (sim_world [(''out.txt'', ''old'')] [])) =
             (Ret \<lparr>st_size = 3\<rparr>, \<lparr> files = [(''out.txt'', ''old'')], opened = None, inbox = [] \<rparr>)"
    by (simp add: sim_host_def sim_stat_def sim_world_def)
  have b: "os_stat sim_host ''out.txt'' (hst (sim_world [] [])) =
             (Raise OSError, \<lparr> files = [], opened = None, inbox = [] \<rparr>)
           \<and> is_Exception OSError
           \<and> open_write sim_host ''out.txt'' \<lparr> files = [], opened = None, inbox = [] \<rparr> =
               (Ret 3, \<lparr> files = [(''out.txt'', [])], opened = Some ''out.txt'', inbox = [] \<rparr>)
           \<and> file_write sim_host 3 ''hello''
                 \<lparr> files = [(''out.txt'', [])], opened = Some ''out.txt'', inbox = [] \<rparr> =
               (Ret (), \<lparr> files = [(''out.txt'', ''hello''), (''out.txt'', [])],
                          opened = Some ''out.txt'', inbox = [] \<rparr>)
           \<and> file_close sim_host 3
                 \<lparr> files = [(''out.txt'', ''hello''), (''out.txt'', [])],
                   opened = Some ''out.txt'', inbox = [] \<rparr> =
               (Ret (), \<lparr> files = [(''out.txt'', ''hello''), (''out.txt'', [])],
                          opened = None, inbox = [] \<rparr>)"
    by (simp add: sim_host_def sim_stat_def sim_world_def is_Exception_def sim_open_write_def
        sim_file_write_def sim_file_close_def)
  from T [of "sim_world [(''out.txt'', ''old'')] []" "''HTTP/1.0 200 OK''"] a
  have 1: "http_get_output sim_host ''HTTP/1.0 200 OK'' ''hello'' (Some ''out.txt'')
       (sim_world [(''out.txt'', ''old'')] []) =
     (Ret (),
      \<lparr> console = ''Headers:'' @ [NL] @ ''HTTP/1.0 200 OK'' @ [NL] @
          ''Error: file {} already exists, will not overwrite'' @ [NL],
        calls = [CStat ''out.txt''],
        hst = \<lparr> files = [(''out.txt'', ''old'')], opened = None, inbox = [] \<rparr> \<rparr>)"
    by (simp add: sim_world_def)
  from T [of "sim_world [] []" "''HTTP/1.0 200 OK''"] b
  have 2: "http_get_output sim_host ''HTTP/1.0 200 OK'' ''hello'' (Some ''out.txt'')
       (sim_world [] []) =
     (Ret (),
      \<lparr> console = ''Headers:'' @ [NL] @ ''HTTP/1.0 200 OK'' @ [NL] @
          ''Writing output to out.txt'' @ [NL],
        calls = [CStat ''out.txt'', COpenWrite ''out.txt'', CWrite 3 ''hello'', CClose 3],
        hst = \<lparr> files = [(''out.txt'', ''hello''), (''out.txt'', [])], opened = None,
                inbox = [] \<rparr> \<rparr>)"
    by (simp add: sim_world_def)
  from 1 2 show ?thesis by simp
qed

end
